theory Spec2Isabelle
  imports Main
begin

section \<open>Wall-clock instants and clock hours\<close>

text \<open>
  A JavaScript \<open>Date\<close> is modelled by its \<open>getTime()\<close> value: the number of
  milliseconds since the epoch, an integer. The planner and the rate limiter read the
  \<^emph>\<open>local\<close> fields of a date (\<open>setMinutes\<close>, \<open>getHours\<close>, \<open>setHours\<close>), so
  their result depends on the time zone of the process. The zone is a parameter \<open>tz\<close> of
  the model: its offset from UTC in minutes, east positive (\<open>0\<close> for UTC, \<open>330\<close> for
  Asia/Kolkata). Zones whose offset changes during the planned interval (daylight saving
  transitions) are outside this model.
\<close>

type_synonym instant = int

definition hourMs :: int where
  "hourMs = 3600000"

text \<open>\<open>d.setMinutes(0, 0, 0)\<close>: local minutes, seconds and milliseconds set to zero.\<close>

definition setMinutes0 :: "int \<Rightarrow> instant \<Rightarrow> instant" where
  "setMinutes0 tz t = t - (t + tz * 60000) mod hourMs"

text \<open>\<open>d.setHours(d.getHours() + 1)\<close>: the same local minute one hour later.\<close>

definition setHoursPlus1 :: "instant \<Rightarrow> instant" where
  "setHoursPlus1 t = t + hourMs"

section \<open>Batch planner (ratelimit.service.ts, calculateScheduledTimes)\<close>

record planner =
  scheduledTimes :: "instant list"
  currentTime :: instant
  emailsInCurrentHour :: nat
  currentHourStart :: instant

text \<open>The state before the loop: lines 222 to 226 of the source.\<close>

definition planner_init :: "int \<Rightarrow> instant \<Rightarrow> planner" where
  "planner_init tz startTime =
     \<lparr> scheduledTimes = [],
       currentTime = startTime,
       emailsInCurrentHour = 0,
       currentHourStart = setMinutes0 tz startTime \<rparr>"

text \<open>The first statement of the loop body: move to the next hour when the limit is reached.\<close>

definition planner_limit :: "int \<Rightarrow> int \<Rightarrow> planner \<Rightarrow> planner" where
  "planner_limit tz hourlyLimit s =
     (if int (emailsInCurrentHour s) \<ge> hourlyLimit
      then (let ct = setHoursPlus1 (currentHourStart s)
            in s\<lparr> currentTime := ct,
                  currentHourStart := setMinutes0 tz ct,
                  emailsInCurrentHour := 0 \<rparr>)
      else s)"

text \<open>The rest of the body: push the cursor, count it, add the delay, detect a new hour.\<close>

definition planner_emit :: "int \<Rightarrow> int \<Rightarrow> planner \<Rightarrow> planner" where
  "planner_emit tz delayBetweenEmails s =
     (let ct = currentTime s + delayBetweenEmails * 1000;
          newHourStart = setMinutes0 tz ct;
          s1 = s\<lparr> scheduledTimes := scheduledTimes s @ [currentTime s],
                  emailsInCurrentHour := emailsInCurrentHour s + 1,
                  currentTime := ct \<rparr>
      in if newHourStart > currentHourStart s
         then s1\<lparr> currentHourStart := newHourStart, emailsInCurrentHour := 0 \<rparr>
         else s1)"

definition planner_body :: "int \<Rightarrow> int \<Rightarrow> int \<Rightarrow> planner \<Rightarrow> planner" where
  "planner_body tz delayBetweenEmails hourlyLimit s =
     planner_emit tz delayBetweenEmails (planner_limit tz hourlyLimit s)"

text \<open>\<open>for (let i = 0; i < count; i++)\<close>: the body runs \<open>count\<close> times.\<close>

fun planner_loop :: "int \<Rightarrow> nat \<Rightarrow> int \<Rightarrow> int \<Rightarrow> planner \<Rightarrow> planner" where
  "planner_loop tz 0 delayBetweenEmails hourlyLimit s = s"
| "planner_loop tz (Suc k) delayBetweenEmails hourlyLimit s =
     planner_loop tz k delayBetweenEmails hourlyLimit
       (planner_body tz delayBetweenEmails hourlyLimit s)"

text \<open>
  The source takes \<open>senderId\<close> as its fifth argument and never reads it; the model keeps
  the argument. The function reads no store and no counter, so it has no state argument.
\<close>

definition calculateScheduledTimes ::
  "int \<Rightarrow> nat \<Rightarrow> instant \<Rightarrow> int \<Rightarrow> int \<Rightarrow> string option \<Rightarrow> instant list" where
  "calculateScheduledTimes tz count startTime delayBetweenEmails hourlyLimit senderId =
     scheduledTimes
       (planner_loop tz count delayBetweenEmails hourlyLimit (planner_init tz startTime))"

section \<open>Invariants of the planner loop\<close>

definition planner_inv :: "int \<Rightarrow> planner \<Rightarrow> bool" where
  "planner_inv tz s \<longleftrightarrow>
     currentHourStart s = setMinutes0 tz (currentTime s) \<and>
     sorted (scheduledTimes s) \<and>
     (\<forall>t \<in> set (scheduledTimes s). t \<le> currentTime s) \<and>
     emailsInCurrentHour s =
       length (filter (\<lambda>t. currentHourStart s \<le> t) (scheduledTimes s))"

definition planner_cap_inv :: "int \<Rightarrow> int \<Rightarrow> planner \<Rightarrow> bool" where
  "planner_cap_inv tz cap s \<longleftrightarrow>
     (\<forall>h. int (length (filter (\<lambda>t. setMinutes0 tz t = h) (scheduledTimes s))) \<le> cap)"

text \<open>What the planner emits after the instant \<open>a\<close>, given the instants up to \<open>a\<close>.\<close>

definition bucket_size :: "int \<Rightarrow> instant list \<Rightarrow> instant \<Rightarrow> nat" where
  "bucket_size tz xs a = length (filter (\<lambda>t. setMinutes0 tz t = setMinutes0 tz a) xs)"

definition planned_next :: "int \<Rightarrow> int \<Rightarrow> int \<Rightarrow> instant list \<Rightarrow> instant \<Rightarrow> instant" where
  "planned_next tz spacing cap xs a =
     (if cap \<le> int (bucket_size tz xs a) \<and>
         setMinutes0 tz (a + spacing * 1000) = setMinutes0 tz a
      then setMinutes0 tz a + hourMs
      else a + spacing * 1000)"

definition planner_chain :: "int \<Rightarrow> int \<Rightarrow> int \<Rightarrow> instant list \<Rightarrow> bool" where
  "planner_chain tz spacing cap xs \<longleftrightarrow>
     (\<forall>i. Suc i < length xs \<longrightarrow>
        xs ! Suc i = planned_next tz spacing cap (take (Suc i) xs) (xs ! i))"

definition planner_follow :: "int \<Rightarrow> planner \<Rightarrow> bool" where
  "planner_follow spacing s \<longleftrightarrow>
     (scheduledTimes s \<noteq> [] \<longrightarrow> currentTime s = last (scheduledTimes s) + spacing * 1000)"

section \<open>Durable store, counters, queue and transport\<close>

text \<open>
  The tables of the relational schema (migration.sql) are association lists from the
  primary key to the row. Only the columns read or written by the delivery pipeline are
  kept; \<open>retry_count\<close> and \<open>max_retries\<close> are non-negative integers with the
  schema defaults 0 and 3.
\<close>

datatype EmailStatus = SCHEDULED | PROCESSING | SENT | FAILED | RATE_LIMITED

record email =
  userId :: string
  senderId :: "string option"
  recipientEmail :: string
  subject :: string
  body :: string
  scheduledAt :: instant
  sentAt :: "instant option"
  status :: EmailStatus
  errorMessage :: "string option"
  retryCount :: nat
  maxRetries :: nat
  jobId :: "string option"
  messageId :: "string option"
  previewUrl :: "string option"
  batchId :: "string option"
  batchIndex :: "nat option"

record emailBatch =
  batch_userId :: string
  totalEmails :: int
  scheduledEmails :: int
  sentEmails :: int
  failedEmails :: int
  batch_startTime :: instant
  batch_delayBetweenEmails :: int
  batch_hourlyLimit :: int

record sender =
  sender_id :: string
  sender_userId :: string
  sender_email :: string
  sender_name :: string
  smtpHost :: "string option"
  smtpPort :: "int option"
  smtpUser :: "string option"
  smtpPass :: "string option"
  isDefault :: bool
  isActive :: bool

record rateLimitCounter =
  counter_count :: nat
  windowStart :: instant
  windowEnd :: instant

text \<open>A thrown JavaScript value: an \<open>Error\<close> with its message, or anything else.\<close>

datatype thrown = Error string | NonError

text \<open>The queue payload (types, EmailJobData), a delivered job, and a stored queue entry.\<close>

record EmailJobData =
  emailId :: string
  job_recipientEmail :: string
  job_subject :: string
  job_body :: string
  job_senderId :: "string option"
  job_userId :: string
  job_batchId :: "string option"
  attemptNumber :: nat

record job =
  job_id :: string
  job_data :: EmailJobData

record queuedJob =
  q_jobId :: string
  q_data :: EmailJobData
  q_delay :: int
  q_priority :: nat
  q_attempts :: int

record SMTPConfig =
  smtp_host :: string
  smtp_port :: int
  smtp_secure :: bool
  smtp_auth_user :: string
  smtp_auth_pass :: string

record SendEmailOptions =
  mail_from :: string
  mail_to :: string
  mail_subject :: string
  mail_html :: string

text \<open>
  \<open>SendEmailResult\<close> and \<open>EmailJobResult\<close> have the same four fields in the source.
\<close>

record EmailJobResult =
  success :: bool
  result_messageId :: "string option"
  result_previewUrl :: "string option"
  error :: "string option"

type_synonym SendEmailResult = EmailJobResult

record RateLimitCheck =
  allowed :: bool
  remaining :: int
  resetTime :: instant
  nextAvailableSlot :: "instant option"

text \<open>
  What the process is started with: the frozen configuration (config/index.ts), the time
  zone, and the two date renderings of the platform that the rate limiter uses for its
  keys (\<open>YYYY-MM-DD-HH\<close> in UTC, and \<open>Date.toISOString\<close>), taken as parameters.
\<close>

record runtime =
  zoneOffset :: int
  utcHourKey :: "instant \<Rightarrow> string"
  toISOString :: "instant \<Rightarrow> string"
  worker_maxRetries :: int
  maxEmailsPerHour :: int
  maxEmailsPerHourPerSender :: int

text \<open>
  The state shared by the coordinator and the workers. \<open>redisFault\<close> and
  \<open>queueFault\<close> say whether the counter backend and the queue backend reject commands.
  \<open>outbox\<close> holds one entry per call of the transport. \<open>transitions\<close> is a history
  kept for the proofs only: every write that changes the status of an existing message
  appends (message id, status before, status after).
\<close>

record world =
  emails :: "(string \<times> email) list"
  emailBatches :: "(string \<times> emailBatch) list"
  senders :: "sender list"
  rateLimitCounters :: "(string \<times> rateLimitCounter) list"
  redisCounters :: "(string \<times> nat) list"
  redisFault :: bool
  queue :: "queuedJob list"
  queueFault :: "thrown option"
  outbox :: "(SendEmailOptions \<times> SMTPConfig option) list"
  transitions :: "(string \<times> EmailStatus \<times> EmailStatus) list"

text \<open>JavaScript truthiness of an optional string: \<open>undefined\<close>, \<open>null\<close> and \<open>""\<close> are falsy.\<close>

definition truthy :: "string option \<Rightarrow> bool" where
  "truthy s = (case s of None \<Rightarrow> False | Some v \<Rightarrow> v \<noteq> [])"

subsection \<open>The store client (Prisma)\<close>

text \<open>
  \<open>update\<close> and \<open>delete\<close> on a key that has no row reject with the client's
  record-not-found error; \<open>updateMany\<close> and \<open>findUnique\<close> do not.
\<close>

definition notFound :: thrown where
  "notFound = Error ''Record to update not found.''"

definition alist_change :: "string \<Rightarrow> ('a \<Rightarrow> 'a) \<Rightarrow> (string \<times> 'a) list \<Rightarrow> (string \<times> 'a) list" where
  "alist_change k f rows = map (\<lambda>(k', x). if k' = k then (k', f x) else (k', x)) rows"

definition status_change :: "string \<Rightarrow> email \<Rightarrow> email \<Rightarrow> (string \<times> EmailStatus \<times> EmailStatus) list" where
  "status_change k e e' = (if status e' = status e then [] else [(k, status e, status e')])"

definition email_findUnique :: "string \<Rightarrow> world \<Rightarrow> email option" where
  "email_findUnique k w = map_of (emails w) k"

definition email_update :: "string \<Rightarrow> (email \<Rightarrow> email) \<Rightarrow> world \<Rightarrow> thrown + world" where
  "email_update k f w =
     (case map_of (emails w) k of
        None \<Rightarrow> Inl notFound
      | Some e \<Rightarrow> Inr (w\<lparr> emails := alist_change k f (emails w),
                          transitions := transitions w @ status_change k e (f e) \<rparr>))"

definition email_updateMany :: "(email \<Rightarrow> bool) \<Rightarrow> (email \<Rightarrow> email) \<Rightarrow> world \<Rightarrow> world" where
  "email_updateMany p f w =
     w\<lparr> emails := map (\<lambda>(k, e). if p e then (k, f e) else (k, e)) (emails w),
        transitions := transitions w @
          concat (map (\<lambda>(k, e). if p e then status_change k e (f e) else []) (emails w)) \<rparr>"

definition email_delete :: "string \<Rightarrow> world \<Rightarrow> thrown + world" where
  "email_delete k w =
     (case map_of (emails w) k of
        None \<Rightarrow> Inl notFound
      | Some e \<Rightarrow> Inr (w\<lparr> emails := filter (\<lambda>(k', e). k' \<noteq> k) (emails w) \<rparr>))"

definition emailBatch_update :: "string \<Rightarrow> (emailBatch \<Rightarrow> emailBatch) \<Rightarrow> world \<Rightarrow> thrown + world" where
  "emailBatch_update k f w =
     (case map_of (emailBatches w) k of
        None \<Rightarrow> Inl notFound
      | Some b \<Rightarrow> Inr (w\<lparr> emailBatches := alist_change k f (emailBatches w) \<rparr>))"

definition rateLimitCounter_upsert ::
  "string \<Rightarrow> (rateLimitCounter \<Rightarrow> rateLimitCounter) \<Rightarrow> rateLimitCounter \<Rightarrow> world \<Rightarrow> world" where
  "rateLimitCounter_upsert k f c w =
     (case map_of (rateLimitCounters w) k of
        None \<Rightarrow> w\<lparr> rateLimitCounters := rateLimitCounters w @ [(k, c)] \<rparr>
      | Some c' \<Rightarrow> w\<lparr> rateLimitCounters := alist_change k f (rateLimitCounters w) \<rparr>)"

subsection \<open>The counter backend (Redis)\<close>

definition redis_get :: "string \<Rightarrow> world \<Rightarrow> nat" where
  "redis_get k w = (case map_of (redisCounters w) k of None \<Rightarrow> 0 | Some n \<Rightarrow> n)"

definition redis_incr :: "string \<Rightarrow> world \<Rightarrow> world" where
  "redis_incr k w =
     (case map_of (redisCounters w) k of
        None \<Rightarrow> w\<lparr> redisCounters := redisCounters w @ [(k, 1)] \<rparr>
      | Some n \<Rightarrow> w\<lparr> redisCounters := alist_change k Suc (redisCounters w) \<rparr>)"

subsection \<open>The queue (email.queue.ts over BullMQ)\<close>

text \<open>
  \<open>Queue.add\<close> rejects when the backend is down, and ignores a job whose id is already
  present. Decimal rendering of the attempt number builds the job id.
\<close>

definition digit_char :: "nat \<Rightarrow> char" where
  "digit_char d = char_of (48 + d)"

fun string_of_nat :: "nat \<Rightarrow> string" where
  "string_of_nat n =
     (if n < 10 then [digit_char n] else string_of_nat (n div 10) @ [digit_char (n mod 10)])"

declare string_of_nat.simps [simp del]

definition generateJobId :: "string \<Rightarrow> nat \<Rightarrow> string" where
  "generateJobId eid attempt = ''email-'' @ eid @ ''-attempt-'' @ string_of_nat attempt"

definition queue_add :: "queuedJob \<Rightarrow> world \<Rightarrow> world" where
  "queue_add j w =
     (if q_jobId j \<in> set (map q_jobId (queue w)) then w else w\<lparr> queue := queue w @ [j] \<rparr>)"

definition addEmailJob ::
  "runtime \<Rightarrow> EmailJobData \<Rightarrow> instant \<Rightarrow> nat \<Rightarrow> instant \<Rightarrow> world \<Rightarrow> thrown + (string \<times> world)" where
  "addEmailJob rt d at priority now w =
     (let delay = max 0 (at - now);
          jid = generateJobId (emailId d) (attemptNumber d)
      in case queueFault w of
           Some err \<Rightarrow> Inl err
         | None \<Rightarrow> Inr (jid, queue_add \<lparr> q_jobId = jid, q_data = d, q_delay = delay,
                                        q_priority = priority,
                                        q_attempts = worker_maxRetries rt \<rparr> w))"

definition addEmailJobs ::
  "runtime \<Rightarrow> (EmailJobData \<times> instant \<times> nat) list \<Rightarrow> instant \<Rightarrow> world \<Rightarrow>
     thrown + (string list \<times> world)" where
  "addEmailJobs rt jobs now w =
     (let bulkJobs = map (\<lambda>(d, at, priority).
            \<lparr> q_jobId = generateJobId (emailId d) (attemptNumber d), q_data = d,
              q_delay = max 0 (at - now), q_priority = priority,
              q_attempts = worker_maxRetries rt \<rparr>) jobs
      in case queueFault w of
           Some err \<Rightarrow> Inl err
         | None \<Rightarrow> Inr (map q_jobId bulkJobs, fold queue_add bulkJobs w))"

definition rescheduleJob ::
  "runtime \<Rightarrow> EmailJobData \<Rightarrow> instant \<Rightarrow> instant \<Rightarrow> world \<Rightarrow> thrown + (string \<times> world)" where
  "rescheduleJob rt d nextAvailableTime now w =
     addEmailJob rt (d\<lparr> attemptNumber := attemptNumber d + 1 \<rparr>) nextAvailableTime 0 now w"

section \<open>Rate limiter (ratelimit.service.ts)\<close>

definition getRateLimitKey :: "runtime \<Rightarrow> string option \<Rightarrow> instant \<Rightarrow> string" where
  "getRateLimitKey rt sid now =
     (case sid of
        Some v \<Rightarrow> (if v \<noteq> [] then ''ratelimit:email:sender:'' @ v @ '':'' @ utcHourKey rt now
                  else ''ratelimit:email:global:'' @ utcHourKey rt now)
      | None \<Rightarrow> ''ratelimit:email:global:'' @ utcHourKey rt now)"

text \<open>
  \<open>new Date(y, m, d, h, 0, 0, 0)\<close> built from the local fields of \<open>now\<close>: the start of
  the local clock hour.
\<close>

definition getCurrentHourStart :: "runtime \<Rightarrow> instant \<Rightarrow> instant" where
  "getCurrentHourStart rt now = setMinutes0 (zoneOffset rt) now"

definition getNextHourStart :: "runtime \<Rightarrow> instant \<Rightarrow> instant" where
  "getNextHourStart rt now = setHoursPlus1 (getCurrentHourStart rt now)"

text \<open>The fallback: count the messages sent in the current hour, from the store.\<close>

definition checkRateLimitFromDB :: "runtime \<Rightarrow> string option \<Rightarrow> instant \<Rightarrow> world \<Rightarrow> RateLimitCheck" where
  "checkRateLimitFromDB rt sid now w =
     (let hourStart = getCurrentHourStart rt now;
          hourEnd = getNextHourStart rt now;
          inHour = (\<lambda>e. status e = SENT \<and>
                      (case sentAt e of None \<Rightarrow> False | Some t \<Rightarrow> hourStart \<le> t \<and> t < hourEnd));
          globalCount = int (length (filter (\<lambda>(k, e). inHour e) (emails w)));
          senderCount = (if truthy sid
                         then int (length (filter (\<lambda>(k, e). senderId e = sid \<and> inHour e) (emails w)))
                         else 0);
          maxGlobal = maxEmailsPerHour rt;
          maxPerSender = maxEmailsPerHourPerSender rt;
          globalRemaining = max 0 (maxGlobal - globalCount);
          senderRemaining = (if truthy sid then max 0 (maxPerSender - senderCount) else maxGlobal);
          remaining = min globalRemaining senderRemaining
      in \<lparr> allowed = remaining > 0,
           remaining = remaining,
           resetTime = hourEnd,
           nextAvailableSlot = Some (if remaining > 0 then now else hourEnd) \<rparr>)"

definition checkRateLimit :: "runtime \<Rightarrow> string option \<Rightarrow> instant \<Rightarrow> world \<Rightarrow> RateLimitCheck" where
  "checkRateLimit rt sid now w =
     (if redisFault w then checkRateLimitFromDB rt sid now w
      else
        let globalKey = getRateLimitKey rt None now;
            globalCount = int (redis_get globalKey w);
            senderCount = (if truthy sid then int (redis_get (getRateLimitKey rt sid now) w) else 0);
            maxGlobal = maxEmailsPerHour rt;
            maxPerSender = maxEmailsPerHourPerSender rt;
            globalRemaining = max 0 (maxGlobal - globalCount);
            senderRemaining = (if truthy sid then max 0 (maxPerSender - senderCount) else maxGlobal);
            remaining = min globalRemaining senderRemaining;
            allowed = remaining > 0
        in \<lparr> allowed = allowed,
             remaining = remaining,
             resetTime = getNextHourStart rt now,
             nextAvailableSlot = Some (if allowed then now else getNextHourStart rt now) \<rparr>)"

definition updateDBRateLimit :: "runtime \<Rightarrow> string option \<Rightarrow> instant \<Rightarrow> world \<Rightarrow> world" where
  "updateDBRateLimit rt sid now w =
     (let hourStart = getCurrentHourStart rt now;
          hourEnd = getNextHourStart rt now;
          counterKey = (case sid of
                          Some v \<Rightarrow> (if v \<noteq> [] then ''sender:'' @ v @ '':'' @ toISOString rt hourStart
                                    else ''global:'' @ toISOString rt hourStart)
                        | None \<Rightarrow> ''global:'' @ toISOString rt hourStart)
      in rateLimitCounter_upsert counterKey
           (\<lambda>c. c\<lparr> counter_count := counter_count c + 1 \<rparr>)
           \<lparr> counter_count = 1, windowStart = hourStart, windowEnd = hourEnd \<rparr> w)"

text \<open>
  The counters of the current hour are bumped when the backend answers (their expiry is
  not modelled: a key names its hour, so an old key is never read again); the durable
  counter is written in every case.
\<close>

definition incrementRateLimit :: "runtime \<Rightarrow> string option \<Rightarrow> instant \<Rightarrow> world \<Rightarrow> world" where
  "incrementRateLimit rt sid now w =
     (let w1 = (if redisFault w then w
                else let w' = redis_incr (getRateLimitKey rt None now) w
                     in if truthy sid then redis_incr (getRateLimitKey rt sid now) w' else w')
      in updateDBRateLimit rt sid now w1)"

definition getNextAvailableSlot :: "runtime \<Rightarrow> string option \<Rightarrow> instant \<Rightarrow> world \<Rightarrow> instant" where
  "getNextAvailableSlot rt sid now w =
     (let rateCheck = checkRateLimit rt sid now w
      in if allowed rateCheck then now
         else (case nextAvailableSlot rateCheck of
                 Some t \<Rightarrow> t
               | None \<Rightarrow> getNextHourStart rt now))"

section \<open>Worker (email.worker.ts, processEmailJob)\<close>

text \<open>The sender lookup and the transport envelope: lines 63 to 100 of the source.\<close>

definition smtpConfigOf :: "sender \<Rightarrow> SMTPConfig option" where
  "smtpConfigOf s =
     (case (smtpHost s, smtpUser s, smtpPass s) of
        (Some h, Some u, Some p) \<Rightarrow>
          (if h \<noteq> [] \<and> u \<noteq> [] \<and> p \<noteq> []
           then Some \<lparr> smtp_host = h,
                       smtp_port = (case smtpPort s of None \<Rightarrow> 587
                                    | Some n \<Rightarrow> if n = 0 then 587 else n),
                       smtp_secure = (smtpPort s = Some 465),
                       smtp_auth_user = u, smtp_auth_pass = p \<rparr>
           else None)
      | _ \<Rightarrow> None)"

definition envelope :: "EmailJobData \<Rightarrow> world \<Rightarrow> SendEmailOptions \<times> SMTPConfig option" where
  "envelope d w =
     (let found = (if truthy (job_senderId d)
                   then find (\<lambda>s. Some (sender_id s) = job_senderId d) (senders w)
                   else None);
          fromAddress = (case found of None \<Rightarrow> ''noreply@emailscheduler.com''
                         | Some s \<Rightarrow> sender_email s);
          fromName = (case found of None \<Rightarrow> ''Email Scheduler'' | Some s \<Rightarrow> sender_name s);
          smtpConfig = (case found of None \<Rightarrow> None | Some s \<Rightarrow> smtpConfigOf s)
      in (\<lparr> mail_from = [CHR 0x22] @ fromName @ [CHR 0x22] @ '' <'' @ fromAddress @ ''>'',
            mail_to = job_recipientEmail d,
            mail_subject = job_subject d,
            mail_html = job_body d \<rparr>, smtpConfig))"

text \<open>
  The \<open>try\<close> block. The result is what the block returns (\<open>Inr\<close>) or throws (\<open>Inl\<close>),
  with the state reached at that point. \<open>sendResult\<close> is what the transport answers
  if it is called; \<open>sendEmail\<close> never throws.
\<close>

definition processEmailJob_try ::
  "runtime \<Rightarrow> job \<Rightarrow> SendEmailResult \<Rightarrow> instant \<Rightarrow> world \<Rightarrow> (thrown + EmailJobResult) \<times> world" where
  "processEmailJob_try rt j sendResult now w =
     (let d = job_data j; eid = emailId d; sid = job_senderId d in
      case email_update eid (\<lambda>e. e\<lparr> status := PROCESSING, jobId := Some (job_id j) \<rparr>) w of
        Inl err \<Rightarrow> (Inl err, w)
      | Inr w1 \<Rightarrow>
          let rateCheck = checkRateLimit rt sid now w1 in
          if \<not> allowed rateCheck then
            (case email_update eid (\<lambda>e. e\<lparr> status := RATE_LIMITED \<rparr>) w1 of
               Inl err \<Rightarrow> (Inl err, w1)
             | Inr w2 \<Rightarrow>
                 let nextSlot = getNextAvailableSlot rt sid now w2 in
                 (case rescheduleJob rt d nextSlot now w2 of
                    Inl err \<Rightarrow> (Inl err, w2)
                  | Inr (jid, w3) \<Rightarrow>
                      (Inr \<lparr> success = False, result_messageId = None,
                             result_previewUrl = None,
                             error = Some (''Rate limited. Rescheduled for '' @
                                           toISOString rt nextSlot) \<rparr>, w3)))
          else
            let w2 = w1\<lparr> outbox := outbox w1 @ [envelope d w1] \<rparr> in
            if success sendResult then
              let w3 = incrementRateLimit rt sid now w2 in
              (case email_update eid
                      (\<lambda>e. e\<lparr> status := SENT, sentAt := Some now,
                              messageId := result_messageId sendResult,
                              previewUrl := result_previewUrl sendResult \<rparr>) w3 of
                 Inl err \<Rightarrow> (Inl err, w3)
               | Inr w4 \<Rightarrow>
                   let done = \<lparr> success = True,
                                result_messageId = result_messageId sendResult,
                                result_previewUrl = result_previewUrl sendResult,
                                error = None \<rparr> in
                   (case email_findUnique eid w4 of
                      None \<Rightarrow> (Inr done, w4)
                    | Some e \<Rightarrow>
                        (case batchId e of
                           None \<Rightarrow> (Inr done, w4)
                         | Some b \<Rightarrow>
                             if b = [] then (Inr done, w4)
                             else (case emailBatch_update b
                                          (\<lambda>x. x\<lparr> sentEmails := sentEmails x + 1 \<rparr>) w4 of
                                     Inl err \<Rightarrow> (Inl err, w4)
                                   | Inr w5 \<Rightarrow> (Inr done, w5)))))
            else
              (Inl (Error (if truthy (error sendResult)
                           then (case error sendResult of Some m \<Rightarrow> m | None \<Rightarrow> [])
                           else ''Unknown email sending error'')), w2))"

text \<open>
  The \<open>catch\<close> block: lines 142 to 191. It returns a result in both branches; only a
  store write that rejects makes it throw.
\<close>

definition processEmailJob_catch ::
  "runtime \<Rightarrow> job \<Rightarrow> thrown \<Rightarrow> world \<Rightarrow> (thrown + EmailJobResult) \<times> world" where
  "processEmailJob_catch rt j err w =
     (let eid = emailId (job_data j);
          msg = (case err of Error m \<Rightarrow> m | NonError \<Rightarrow> ''Unknown error'');
          found = email_findUnique eid w;
          rc = (case found of None \<Rightarrow> 0 | Some e \<Rightarrow> retryCount e) + 1;
          mr = (case found of
                  None \<Rightarrow> worker_maxRetries rt
                | Some e \<Rightarrow> if maxRetries e = 0 then worker_maxRetries rt
                            else int (maxRetries e));
          failure = \<lparr> success = False, result_messageId = None, result_previewUrl = None,
                      error = Some msg \<rparr>
      in if int rc \<ge> mr then
           (case email_update eid
                   (\<lambda>e. e\<lparr> status := FAILED, errorMessage := Some msg, retryCount := rc \<rparr>) w of
              Inl err' \<Rightarrow> (Inl err', w)
            | Inr w1 \<Rightarrow>
                (case found of
                   None \<Rightarrow> (Inr failure, w1)
                 | Some e \<Rightarrow>
                     (case batchId e of
                        None \<Rightarrow> (Inr failure, w1)
                      | Some b \<Rightarrow>
                          if b = [] then (Inr failure, w1)
                          else (case emailBatch_update b
                                       (\<lambda>x. x\<lparr> failedEmails := failedEmails x + 1 \<rparr>) w1 of
                                  Inl err' \<Rightarrow> (Inl err', w1)
                                | Inr w2 \<Rightarrow> (Inr failure, w2)))))
         else
           (case email_update eid
                   (\<lambda>e. e\<lparr> status := SCHEDULED, errorMessage := Some msg, retryCount := rc \<rparr>) w of
              Inl err' \<Rightarrow> (Inl err', w)
            | Inr w1 \<Rightarrow> (Inr failure, w1)))"

text \<open>
  The processor handed to the queue. \<open>Inr\<close>: the promise resolves and the queue marks
  the job completed. \<open>Inl\<close>: the promise rejects and the queue marks the attempt failed.
\<close>

definition processEmailJob ::
  "runtime \<Rightarrow> job \<Rightarrow> SendEmailResult \<Rightarrow> instant \<Rightarrow> world \<Rightarrow> (thrown + EmailJobResult) \<times> world" where
  "processEmailJob rt j sendResult now w =
     (case processEmailJob_try rt j sendResult now w of
        (Inr r, w1) \<Rightarrow> (Inr r, w1)
      | (Inl err, w1) \<Rightarrow> processEmailJob_catch rt j err w1)"

section \<open>Queue delivery (BullMQ worker contract)\<close>

text \<open>
  How the queue library drives the processor for one job: the processor runs; when its
  promise resolves, the job is completed and is not delivered again; when it rejects, the
  attempt has failed and the job is delivered again after the backoff, as long as attempts
  remain. \<open>answers\<close> lists, per attempt, what the transport would answer and the time of
  the attempt.
\<close>

fun deliver :: "runtime \<Rightarrow> job \<Rightarrow> nat \<Rightarrow> (SendEmailResult \<times> instant) list \<Rightarrow> world \<Rightarrow> world" where
  "deliver rt j 0 answers w = w"
| "deliver rt j (Suc n) [] w = w"
| "deliver rt j (Suc n) ((r, now) # answers) w =
     (case processEmailJob rt j r now w of
        (Inr res, w1) \<Rightarrow> w1
      | (Inl err, w1) \<Rightarrow> deliver rt j n answers w1)"

section \<open>Scheduling coordinator (email.controller.ts)\<close>

text \<open>
  The request after validation by the schema (the HTTP edge), without the attachments;
  \<open>req_startTime\<close> is the parsed date.
\<close>

record ScheduleEmailRequest =
  req_subject :: string
  req_body :: string
  req_recipients :: "string list"
  req_startTime :: instant
  req_delayBetweenEmails :: int
  req_hourlyLimit :: int
  req_senderId :: "string option"

record response =
  statusCode :: nat
  resp_success :: bool
  resp_error :: "string option"
  resp_message :: "string option"
  resp_batchId :: "string option"

definition failure_response :: "nat \<Rightarrow> string \<Rightarrow> response" where
  "failure_response code msg =
     \<lparr> statusCode = code, resp_success = False, resp_error = Some msg,
       resp_message = None, resp_batchId = None \<rparr>"

text \<open>\<open>String.prototype.includes\<close>.\<close>

fun startsWith :: "string \<Rightarrow> string \<Rightarrow> bool" where
  "startsWith s [] = True"
| "startsWith [] (p # ps) = False"
| "startsWith (c # cs) (p # ps) = (c = p \<and> startsWith cs ps)"

fun str_includes :: "string \<Rightarrow> string \<Rightarrow> bool" where
  "str_includes [] p = (p = [])"
| "str_includes (c # cs) p = (startsWith (c # cs) p \<or> str_includes cs p)"

text \<open>Lines 99 to 162: the sender to use, or the response that ends the request.\<close>

definition resolveSender :: "string \<Rightarrow> string option \<Rightarrow> world \<Rightarrow> response + string" where
  "resolveSender uid requested w =
     (if \<not> truthy requested then
        (case find (\<lambda>s. sender_userId s = uid \<and> isActive s \<and> isDefault s) (senders w) of
           Some s \<Rightarrow> Inr (sender_id s)
         | None \<Rightarrow>
             (case find (\<lambda>s. sender_userId s = uid \<and> isActive s) (senders w) of
                Some s \<Rightarrow> Inr (sender_id s)
              | None \<Rightarrow> Inl (failure_response 400
                  ''No sender configured. Please add a sender email first.'')))
      else
        (case find (\<lambda>s. Some (sender_id s) = requested \<and> sender_userId s = uid \<and> isActive s)
                (senders w) of
           None \<Rightarrow> Inl (failure_response 400 ''Invalid or inactive sender'')
         | Some s \<Rightarrow> Inr (sender_id s)))"

text \<open>
  \<open>Promise.all\<close> over the updates that link the job ids: every update runs; the first
  rejection, if any, is what the whole rejects with.
\<close>

fun link_jobs :: "(string \<times> string) list \<Rightarrow> world \<Rightarrow> thrown option \<times> world" where
  "link_jobs [] w = (None, w)"
| "link_jobs ((eid, jid) # rest) w =
     (case email_update eid (\<lambda>e. e\<lparr> jobId := Some jid \<rparr>) w of
        Inl err \<Rightarrow> (Some err, snd (link_jobs rest w))
      | Inr w1 \<Rightarrow> link_jobs rest w1)"

text \<open>The outer \<open>catch\<close>: the response for a thrown value (lines 291 to 314).\<close>

definition error_response :: "thrown \<Rightarrow> response" where
  "error_response err =
     failure_response 500
       (case err of
          NonError \<Rightarrow> ''Failed to schedule emails''
        | Error m \<Rightarrow>
            if str_includes m ''Redis'' \<or> str_includes m ''ECONNREFUSED''
            then ''Queue service unavailable. Please try again later.''
            else if str_includes m ''Prisma'' \<or> str_includes m ''database''
            then ''Database error. Please try again later.''
            else m)"

text \<open>
  The inner \<open>catch\<close> (lines 256 to 272): every message of the batch is marked FAILED with
  the message of the queue error, and the error is thrown again.
\<close>

definition queue_error_text :: "thrown \<Rightarrow> string" where
  "queue_error_text queueError =
     (case queueError of
        Error m \<Rightarrow> m
      | NonError \<Rightarrow> ''Failed to add to queue (System Error)'')"

definition mark_batch_failed :: "string \<Rightarrow> thrown \<Rightarrow> world \<Rightarrow> world" where
  "mark_batch_failed bid queueError w =
     email_updateMany (\<lambda>e. batchId e = Some bid)
       (\<lambda>e. e\<lparr> status := FAILED, errorMessage := Some (queue_error_text queueError) \<rparr>) w"

text \<open>
  The store assigns the keys of new rows: \<open>newBatchId\<close> is the key of the batch and
  \<open>newEmailId i\<close> the key of the message of recipient \<open>i\<close>.
\<close>

definition new_email :: "string \<Rightarrow> string \<Rightarrow> ScheduleEmailRequest \<Rightarrow> string \<Rightarrow> nat \<Rightarrow>
    string \<Rightarrow> instant \<Rightarrow> email" where
  "new_email uid sid req bid index recipient at =
     \<lparr> userId = uid, senderId = Some sid, recipientEmail = recipient,
       subject = req_subject req, body = req_body req, scheduledAt = at, sentAt = None,
       status = SCHEDULED, errorMessage = None, retryCount = 0, maxRetries = 3,
       jobId = None, messageId = None, previewUrl = None, batchId = Some bid,
       batchIndex = Some index \<rparr>"

definition new_job :: "string \<Rightarrow> string \<Rightarrow> string \<Rightarrow> string \<times> email \<Rightarrow> EmailJobData" where
  "new_job uid sid bid row =
     \<lparr> emailId = fst row, job_recipientEmail = recipientEmail (snd row),
       job_subject = subject (snd row), job_body = body (snd row),
       job_senderId = Some sid, job_userId = uid, job_batchId = Some bid,
       attemptNumber = 1 \<rparr>"

definition scheduleEmails ::
  "runtime \<Rightarrow> string \<Rightarrow> ScheduleEmailRequest \<Rightarrow> string \<Rightarrow> (nat \<Rightarrow> string) \<Rightarrow> instant \<Rightarrow>
     world \<Rightarrow> response \<times> world" where
  "scheduleEmails rt uid req newBatchId newEmailId now w =
     (case resolveSender uid (req_senderId req) w of
        Inl resp \<Rightarrow> (resp, w)
      | Inr senderIdToUse \<Rightarrow>
          if senderIdToUse = []
          then (failure_response 500 ''Internal error: Sender ID resolution failed'', w)
          else
            let n = length (req_recipients req);
                times = calculateScheduledTimes (zoneOffset rt) n (req_startTime req)
                          (req_delayBetweenEmails req) (req_hourlyLimit req) (Some senderIdToUse);
                batch = \<lparr> batch_userId = uid, totalEmails = int n, scheduledEmails = int n,
                          sentEmails = 0, failedEmails = 0,
                          batch_startTime = req_startTime req,
                          batch_delayBetweenEmails = req_delayBetweenEmails req,
                          batch_hourlyLimit = req_hourlyLimit req \<rparr>;
                w1 = w\<lparr> emailBatches := emailBatches w @ [(newBatchId, batch)] \<rparr>;
                rows = map (\<lambda>(index, recipient, at).
                              (newEmailId index,
                               new_email uid senderIdToUse req newBatchId index recipient at))
                         (zip [0..<n] (zip (req_recipients req) times));
                w2 = w1\<lparr> emails := emails w1 @ rows \<rparr>;
                jobsData = map (\<lambda>(index, row, at).
                                  (new_job uid senderIdToUse newBatchId row, at, index))
                             (zip [0..<n] (zip rows times))
            in case addEmailJobs rt jobsData now w2 of
                 Inl queueError \<Rightarrow>
                   (error_response queueError, mark_batch_failed newBatchId queueError w2)
               | Inr (jobIds, w3) \<Rightarrow>
                   (case link_jobs (zip (map fst rows) jobIds) w3 of
                      (Some queueError, w4) \<Rightarrow>
                        (error_response queueError, mark_batch_failed newBatchId queueError w4)
                    | (None, w4) \<Rightarrow>
                        (\<lparr> statusCode = 201, resp_success = True, resp_error = None,
                           resp_message = Some (''Successfully scheduled '' @ string_of_nat n @ '' emails''),
                           resp_batchId = Some newBatchId \<rparr>, w4)))"

text \<open>
  Cancellation. \<open>cancelEmail\<close> is the TypeScript source: the row is deleted, whatever its
  status. \<open>cancelEmail_dist\<close> is the compiled build that is also in the repository: a
  SCHEDULED or RATE\_LIMITED message is marked FAILED with a fixed error message.
\<close>

definition cancelEmail :: "string \<Rightarrow> string \<Rightarrow> world \<Rightarrow> response \<times> world" where
  "cancelEmail uid k w =
     (case find (\<lambda>(k', e). k' = k \<and> userId e = uid) (emails w) of
        None \<Rightarrow> (failure_response 404 ''Email not found'', w)
      | Some row \<Rightarrow>
          (case email_delete k w of
             Inl err \<Rightarrow> (failure_response 500 ''Failed to delete email'', w)
           | Inr w1 \<Rightarrow>
               (\<lparr> statusCode = 200, resp_success = True, resp_error = None,
                  resp_message = Some ''Email deleted successfully'',
                  resp_batchId = None \<rparr>, w1)))"


section \<open>Concrete scenarios\<close>

text \<open>
  A process in UTC with the default configuration (3 retries, 100 messages per hour, 50 per
  sender), one user with a default sender, and one scheduled message with the schema
  defaults.
\<close>

definition example_runtime :: runtime where
  "example_runtime =
     \<lparr> zoneOffset = 0,
       utcHourKey = (\<lambda>t. if t < 1735729200000 then ''2025-01-01-10'' else ''2025-01-01-11''),
       toISOString = (\<lambda>t. ''2025-01-01T11:00:00.000Z''),
       worker_maxRetries = 3, maxEmailsPerHour = 100, maxEmailsPerHourPerSender = 50 \<rparr>"

definition example_sender :: sender where
  "example_sender =
     \<lparr> sender_id = ''s1'', sender_userId = ''u1'', sender_email = ''me@example.com'',
       sender_name = ''Me'', smtpHost = None, smtpPort = None, smtpUser = None,
       smtpPass = None, isDefault = True, isActive = True \<rparr>"

definition example_message :: email where
  "example_message =
     \<lparr> userId = ''u1'', senderId = Some ''s1'', recipientEmail = ''a@example.com'',
       subject = ''Hello'', body = ''<p>Hi</p>'', scheduledAt = 1735726200000,
       sentAt = None, status = SCHEDULED, errorMessage = None, retryCount = 0,
       maxRetries = 3, jobId = None, messageId = None, previewUrl = None, batchId = None,
       batchIndex = None \<rparr>"

definition example_world :: world where
  "example_world =
     \<lparr> emails = [(''m1'', example_message)], emailBatches = [],
       senders = [example_sender], rateLimitCounters = [], redisCounters = [],
       redisFault = False, queue = [], queueFault = None, outbox = [], transitions = [] \<rparr>"

definition example_job :: job where
  "example_job =
     \<lparr> job_id = ''email-m1-attempt-1'',
       job_data = \<lparr> emailId = ''m1'', job_recipientEmail = ''a@example.com'',
                    job_subject = ''Hello'', job_body = ''<p>Hi</p>'',
                    job_senderId = Some ''s1'', job_userId = ''u1'', job_batchId = None,
                    attemptNumber = 1 \<rparr> \<rparr>"


definition transport_failure :: SendEmailResult where
  "transport_failure =
     \<lparr> success = False, result_messageId = None, result_previewUrl = None,
       error = Some ''read ECONNRESET'' \<rparr>"

definition transport_ok :: SendEmailResult where
  "transport_ok =
     \<lparr> success = True, result_messageId = Some ''<1@example.com>'',
       result_previewUrl = None, error = None \<rparr>"

definition example_request :: ScheduleEmailRequest where
  "example_request =
     \<lparr> req_subject = ''Hello'', req_body = ''<p>Hi</p>'',
       req_recipients = [''a@example.com'', ''b@example.com''],
       req_startTime = 1735729140000, req_delayBetweenEmails = 30, req_hourlyLimit = 2,
       req_senderId = None \<rparr>"

definition example_email_id :: "nat \<Rightarrow> string" where
  "example_email_id i = ''e'' @ string_of_nat i"

text \<open>The hourly quota of the process is used up in the hour from 10:00 to 11:00 UTC.\<close>

definition quota_used :: "(string \<times> nat) list" where
  "quota_used = [(''ratelimit:email:global:2025-01-01-10'', 100)]"

text \<open>The queue backend is unreachable.\<close>

definition queue_down :: thrown where
  "queue_down = Error ''connect ECONNREFUSED 127.0.0.1:6379''"

section \<open>Properties named by the specification\<close>

text \<open>
  Section 3: a message in FAILED has a non-null error message and
  \<open>retryCount \<ge> maxRetries\<close> unless it was explicitly cancelled. A cancellation that keeps
  the row marks it with the error message of the compiled build.
\<close>

definition has_error :: "email \<Rightarrow> bool" where
  "has_error e = (status e = FAILED \<longrightarrow> errorMessage e \<noteq> None)"



definition errors_kept :: "world \<Rightarrow> bool" where
  "errors_kept w = list_all (\<lambda>(k, e). has_error e) (emails w)"



text \<open>
  The status changes of one run of the worker, as the code has them: the take-up into
  PROCESSING from SCHEDULED or from RATE\_LIMITED, the four changes out of PROCESSING, and
  the two changes that the \<open>catch\<close> block makes when the deferral of a rate-limited
  message fails. None starts from SENT or FAILED.
\<close>

fun worker_pair :: "EmailStatus \<Rightarrow> EmailStatus \<Rightarrow> bool" where
  "worker_pair SCHEDULED PROCESSING = True"
| "worker_pair RATE_LIMITED PROCESSING = True"
| "worker_pair PROCESSING RATE_LIMITED = True"
| "worker_pair PROCESSING SENT = True"
| "worker_pair PROCESSING SCHEDULED = True"
| "worker_pair PROCESSING FAILED = True"
| "worker_pair RATE_LIMITED SCHEDULED = True"
| "worker_pair RATE_LIMITED FAILED = True"
| "worker_pair a b = False"

definition worker_change :: "string \<Rightarrow> string \<times> EmailStatus \<times> EmailStatus \<Rightarrow> bool" where
  "worker_change eid t = (fst t = eid \<and> worker_pair (fst (snd t)) (snd (snd t)))"








text \<open>
  Section 4.6, fallback: the messages with status SENT whose \<open>sentAt\<close> lies in the current
  clock hour, of one sender if a sender is given.
\<close>

definition sent_in_hour :: "runtime \<Rightarrow> instant \<Rightarrow> email \<Rightarrow> bool" where
  "sent_in_hour rt now e =
     (status e = SENT \<and>
      (case sentAt e of
         None \<Rightarrow> False
       | Some t \<Rightarrow> getCurrentHourStart rt now \<le> t \<and> t < getNextHourStart rt now))"

definition globalCount :: "runtime \<Rightarrow> instant \<Rightarrow> world \<Rightarrow> int" where
  "globalCount rt now w =
     (if redisFault w then int (length (filter (\<lambda>(k, e). sent_in_hour rt now e) (emails w)))
      else int (redis_get (getRateLimitKey rt None now) w))"

definition senderCount :: "runtime \<Rightarrow> string option \<Rightarrow> instant \<Rightarrow> world \<Rightarrow> int" where
  "senderCount rt sid now w =
     (if redisFault w
      then int (length (filter (\<lambda>(k, e). senderId e = sid \<and> sent_in_hour rt now e) (emails w)))
      else int (redis_get (getRateLimitKey rt sid now) w))"

section \<open>Clock-hour arithmetic\<close>

lemma setMinutes0_le: "setMinutes0 tz t \<le> t"
  by (simp add: setMinutes0_def hourMs_def)

lemma setMinutes0_gt: "t < setMinutes0 tz t + hourMs"
  by (simp add: setMinutes0_def hourMs_def)

lemma setMinutes0_alt: "setMinutes0 tz t = hourMs * ((t + tz * 60000) div hourMs) - tz * 60000"
proof -
  have "(t + tz * 60000) = hourMs * ((t + tz * 60000) div hourMs) + (t + tz * 60000) mod hourMs"
    by simp
  then show ?thesis unfolding setMinutes0_def by linarith
qed

lemma setMinutes0_mono: "t \<le> u \<Longrightarrow> setMinutes0 tz t \<le> setMinutes0 tz u"
  unfolding setMinutes0_alt hourMs_def
  using zdiv_mono1 [of "t + tz * 60000" "u + tz * 60000" 3600000] by simp

lemma setMinutes0_step:
  assumes "setMinutes0 tz t < setMinutes0 tz u"
  shows "setMinutes0 tz t + hourMs \<le> setMinutes0 tz u"
proof -
  have "(t + tz * 60000) div hourMs < (u + tz * 60000) div hourMs"
    using assms unfolding setMinutes0_alt hourMs_def by simp
  then have "(t + tz * 60000) div hourMs + 1 \<le> (u + tz * 60000) div hourMs" by simp
  then have "hourMs * ((t + tz * 60000) div hourMs + 1) \<le> hourMs * ((u + tz * 60000) div hourMs)"
    unfolding hourMs_def by simp
  then show ?thesis unfolding setMinutes0_alt by (simp add: algebra_simps)
qed

lemma setMinutes0_next: "setMinutes0 tz (setMinutes0 tz t + hourMs) = setMinutes0 tz t + hourMs"
proof -
  have "(setMinutes0 tz t + hourMs + tz * 60000) mod hourMs = 0"
    unfolding setMinutes0_alt by simp
  then show ?thesis unfolding setMinutes0_def [of tz "setMinutes0 tz t + hourMs"] by simp
qed

lemma setMinutes0_idem: "setMinutes0 tz (setMinutes0 tz t) = setMinutes0 tz t"
proof -
  have "(setMinutes0 tz t + tz * 60000) mod hourMs = 0"
    unfolding setMinutes0_alt by simp
  then show ?thesis unfolding setMinutes0_def [of tz "setMinutes0 tz t"] by simp
qed

lemma setMinutes0_within:
  assumes "setMinutes0 tz t \<le> u" "u \<le> t"
  shows "setMinutes0 tz u = setMinutes0 tz t"
proof -
  have "setMinutes0 tz (setMinutes0 tz t) \<le> setMinutes0 tz u"
    using assms(1) by (rule setMinutes0_mono)
  then have "setMinutes0 tz t \<le> setMinutes0 tz u" by (simp add: setMinutes0_idem)
  moreover have "setMinutes0 tz u \<le> setMinutes0 tz t" using assms(2) by (rule setMinutes0_mono)
  ultimately show ?thesis by simp
qed

text \<open>An aligned window is the set of instants of one clock hour.\<close>

lemma window_iff:
  assumes "setMinutes0 tz w = w"
  shows "(w \<le> t \<and> t < w + hourMs) \<longleftrightarrow> setMinutes0 tz t = w"
proof
  assume h: "w \<le> t \<and> t < w + hourMs"
  then have "setMinutes0 tz w \<le> setMinutes0 tz t" by (simp add: setMinutes0_mono)
  then have le: "w \<le> setMinutes0 tz t" using assms by simp
  have "\<not> w < setMinutes0 tz t"
  proof
    assume "w < setMinutes0 tz t"
    then have "setMinutes0 tz w < setMinutes0 tz t" using assms by simp
    then have "w + hourMs \<le> setMinutes0 tz t" using setMinutes0_step [of tz w t] assms by simp
    then show False using h setMinutes0_le [of tz t] by linarith
  qed
  then show "setMinutes0 tz t = w" using le by simp
next
  assume "setMinutes0 tz t = w"
  then show "w \<le> t \<and> t < w + hourMs"
    using setMinutes0_le [of tz t] setMinutes0_gt [of t tz] by simp
qed

lemma planner_inv_init: "planner_inv tz (planner_init tz startTime)"
  by (simp add: planner_inv_def planner_init_def)

lemma planner_inv_limit:
  assumes "planner_inv tz s"
  shows "planner_inv tz (planner_limit tz hourlyLimit s)"
proof (cases "int (emailsInCurrentHour s) \<ge> hourlyLimit")
  case False
  then show ?thesis using assms by (simp add: planner_limit_def)
next
  case True
  let ?hs = "currentHourStart s"
  have hs: "?hs = setMinutes0 tz (currentTime s)" using assms by (simp add: planner_inv_def)
  have nxt: "setMinutes0 tz (?hs + hourMs) = ?hs + hourMs"
    unfolding hs by (rule setMinutes0_next)
  have lt: "\<forall>t \<in> set (scheduledTimes s). t < ?hs + hourMs"
    using assms setMinutes0_gt [of "currentTime s" tz] unfolding planner_inv_def by fastforce
  then have "filter (\<lambda>t. ?hs + hourMs \<le> t) (scheduledTimes s) = []"
    by (auto simp: filter_empty_conv)
  then show ?thesis
    using True assms lt nxt
    by (auto simp: planner_limit_def planner_inv_def setHoursPlus1_def Let_def)
qed

lemma planner_inv_emit:
  assumes "planner_inv tz s" "0 \<le> d"
  shows "planner_inv tz (planner_emit tz d s)"
proof -
  let ?ct = "currentTime s + d * 1000"
  let ?hs = "currentHourStart s"
  have hs: "?hs = setMinutes0 tz (currentTime s)" using assms by (simp add: planner_inv_def)
  have le: "currentTime s \<le> ?ct" using assms(2) by simp
  have hle: "?hs \<le> setMinutes0 tz ?ct" unfolding hs using le by (rule setMinutes0_mono)
  have srt: "sorted (scheduledTimes s @ [currentTime s])"
    using assms(1) by (auto simp: planner_inv_def sorted_append)
  have bnd: "\<forall>t \<in> set (scheduledTimes s @ [currentTime s]). t \<le> ?ct"
    using assms(1) le by (auto simp: planner_inv_def)
  have cur: "?hs \<le> currentTime s" unfolding hs by (rule setMinutes0_le)
  show ?thesis
  proof (cases "setMinutes0 tz ?ct > ?hs")
    case True
    then have "?hs + hourMs \<le> setMinutes0 tz ?ct"
      unfolding hs by (rule setMinutes0_step)
    then have "\<forall>t \<in> set (scheduledTimes s @ [currentTime s]). t < setMinutes0 tz ?ct"
      using assms(1) setMinutes0_gt [of "currentTime s" tz] hs
      unfolding planner_inv_def by fastforce
    then have "filter (\<lambda>t. setMinutes0 tz ?ct \<le> t) (scheduledTimes s @ [currentTime s]) = []"
      unfolding filter_empty_conv by fastforce
    then show ?thesis
      using True srt bnd
      by (simp add: planner_emit_def planner_inv_def Let_def)
  next
    case False
    then have eq: "setMinutes0 tz ?ct = ?hs" using hle by simp
    show ?thesis
      using False srt bnd eq cur assms(1)
      by (simp add: planner_emit_def planner_inv_def Let_def)
  qed
qed

lemma planner_inv_body:
  "planner_inv tz s \<Longrightarrow> 0 \<le> d \<Longrightarrow> planner_inv tz (planner_body tz d hourlyLimit s)"
  by (simp add: planner_body_def planner_inv_limit planner_inv_emit)

lemma planner_inv_loop:
  "planner_inv tz s \<Longrightarrow> 0 \<le> d \<Longrightarrow> planner_inv tz (planner_loop tz count d hourlyLimit s)"
  by (induction count arbitrary: s) (simp_all add: planner_inv_body)

lemma scheduledTimes_limit [simp]:
  "scheduledTimes (planner_limit tz hourlyLimit s) = scheduledTimes s"
  by (simp add: planner_limit_def Let_def)

lemma scheduledTimes_emit [simp]:
  "scheduledTimes (planner_emit tz d s) = scheduledTimes s @ [currentTime s]"
  by (simp add: planner_emit_def Let_def)

lemma length_planner_loop:
  "length (scheduledTimes (planner_loop tz count d hourlyLimit s)) =
     length (scheduledTimes s) + count"
  by (induction count arbitrary: s) (simp_all add: planner_body_def)

section \<open>Planner: length and monotonicity\<close>

text \<open>
  Claim C4. For every count, start, spacing \<open>\<ge> 0\<close> and cap \<open>\<ge> 1\<close>, the planner returns
  exactly \<open>count\<close> instants, in non-decreasing order. The theorem holds in every time zone
  \<open>tz\<close> and whatever the sender id.
\<close>

theorem planner_length_sorted:
  assumes "0 \<le> spacing" "1 \<le> cap"
  shows "length (calculateScheduledTimes tz count start spacing cap sid) = count \<and>
         sorted (calculateScheduledTimes tz count start spacing cap sid)"
proof -
  have "planner_inv tz (planner_loop tz count spacing cap (planner_init tz start))"
    using planner_inv_init assms(1) by (rule planner_inv_loop)
  then have "sorted (calculateScheduledTimes tz count start spacing cap sid)"
    by (simp add: planner_inv_def calculateScheduledTimes_def)
  moreover have "length (calculateScheduledTimes tz count start spacing cap sid) = count"
    by (simp add: calculateScheduledTimes_def length_planner_loop planner_init_def)
  ultimately show ?thesis by simp
qed

theorem planner_length_sorted_witness:
  "(0::int) \<le> 30 \<and> (1::int) \<le> 2 \<and>
   length (calculateScheduledTimes 0 4 1735729140000 30 2 None) = 4 \<and>
   sorted (calculateScheduledTimes 0 4 1735729140000 30 2 None)"
  using planner_length_sorted [of 30 2 0 4 1735729140000 None] by simp

section \<open>Planner: the hourly cap\<close>

text \<open>With the cursor bounding every planned instant, the counter is the bucket's size.\<close>

lemma bucket_filter:
  assumes "\<forall>t \<in> set xs. t \<le> c"
  shows "filter (\<lambda>t. setMinutes0 tz t = setMinutes0 tz c) xs =
         filter (\<lambda>t. setMinutes0 tz c \<le> t) xs"
proof (rule filter_cong [OF refl])
  fix t assume "t \<in> set xs"
  then have "t \<le> c" using assms by simp
  then show "(setMinutes0 tz t = setMinutes0 tz c) = (setMinutes0 tz c \<le> t)"
    using setMinutes0_within [of tz c t] setMinutes0_le [of tz t] by auto
qed

lemma planner_limit_below:
  assumes "1 \<le> cap"
  shows "int (emailsInCurrentHour (planner_limit tz cap s)) < cap"
  using assms by (simp add: planner_limit_def Let_def)

lemma planner_cap_emit:
  assumes "planner_inv tz s" "planner_cap_inv tz cap s" "int (emailsInCurrentHour s) < cap"
  shows "planner_cap_inv tz cap (planner_emit tz d s)"
proof -
  let ?c = "currentTime s"
  have bnd: "\<forall>t \<in> set (scheduledTimes s). t \<le> ?c"
    using assms(1) by (simp add: planner_inv_def)
  have n: "emailsInCurrentHour s =
      length (filter (\<lambda>t. setMinutes0 tz t = setMinutes0 tz ?c) (scheduledTimes s))"
    using assms(1) bucket_filter [OF bnd, of tz] by (simp add: planner_inv_def)
  have "int (length (filter (\<lambda>t. setMinutes0 tz t = h) (scheduledTimes s @ [?c]))) \<le> cap" for h
  proof (cases "setMinutes0 tz ?c = h")
    case True
    then show ?thesis using n assms(3) by auto
  next
    case False
    then show ?thesis using assms(2) by (simp add: planner_cap_inv_def)
  qed
  then show ?thesis by (simp add: planner_cap_inv_def)
qed

lemma planner_cap_body:
  assumes "planner_inv tz s" "planner_cap_inv tz cap s" "1 \<le> cap"
  shows "planner_cap_inv tz cap (planner_body tz d cap s)"
proof -
  have "planner_cap_inv tz cap (planner_limit tz cap s)"
    using assms(2) by (simp add: planner_cap_inv_def)
  then show ?thesis
    unfolding planner_body_def
    using planner_inv_limit [OF assms(1)] planner_limit_below [OF assms(3)]
    by (intro planner_cap_emit) auto
qed

lemma planner_cap_loop:
  "planner_inv tz s \<Longrightarrow> planner_cap_inv tz cap s \<Longrightarrow> 0 \<le> d \<Longrightarrow> 1 \<le> cap \<Longrightarrow>
   planner_cap_inv tz cap (planner_loop tz count d cap s)"
  by (induction count arbitrary: s) (simp_all add: planner_inv_body planner_cap_body)

text \<open>
  Claim C3. For every count, start, spacing \<open>\<ge> 0\<close> and cap \<open>\<ge> 1\<close>, and for every
  one-hour window \<open>[w, w + 1h)\<close> aligned to the clock hour (\<open>w\<close> has minutes, seconds and
  milliseconds zero in the zone \<open>tz\<close>), at most \<open>cap\<close> of the planned instants fall inside
  the window.
\<close>

theorem planner_hourly_cap:
  assumes "0 \<le> spacing" "1 \<le> cap" "setMinutes0 tz w = w"
  shows "int (length (filter (\<lambda>t. w \<le> t \<and> t < w + hourMs)
            (calculateScheduledTimes tz count start spacing cap sid))) \<le> cap"
proof -
  have "planner_cap_inv tz cap (planner_init tz start)"
    using assms(2) by (simp add: planner_cap_inv_def planner_init_def)
  then have "planner_cap_inv tz cap (planner_loop tz count spacing cap (planner_init tz start))"
    using planner_inv_init assms(1,2) by (intro planner_cap_loop)
  then have "int (length (filter (\<lambda>t. setMinutes0 tz t = w)
       (calculateScheduledTimes tz count start spacing cap sid))) \<le> cap"
    by (simp add: planner_cap_inv_def calculateScheduledTimes_def)
  then show ?thesis using window_iff [OF assms(3)] by simp
qed

theorem planner_hourly_cap_witness:
  "(0::int) \<le> 30 \<and> (1::int) \<le> 2 \<and> setMinutes0 0 1735725600000 = 1735725600000 \<and>
   int (length (filter (\<lambda>t. 1735725600000 \<le> t \<and> t < 1735725600000 + hourMs)
      (calculateScheduledTimes 0 4 1735729140000 30 2 None))) \<le> 2"
  using planner_hourly_cap [of 30 2 0 1735725600000 4 1735729140000 None]
  by (simp add: setMinutes0_def hourMs_def)

section \<open>Planner: spacing and the jump to the next hour\<close>

lemma sorted_le_last: "sorted xs \<Longrightarrow> t \<in> set xs \<Longrightarrow> t \<le> last (xs :: int list)"
  by (induction xs) auto

lemma planner_chain_snoc:
  assumes "planner_chain tz spacing cap xs"
    and "xs \<noteq> [] \<Longrightarrow> c = planned_next tz spacing cap xs (last xs)"
  shows "planner_chain tz spacing cap (xs @ [c])"
  unfolding planner_chain_def
proof (intro allI impI)
  fix i assume i: "Suc i < length (xs @ [c])"
  show "(xs @ [c]) ! Suc i = planned_next tz spacing cap (take (Suc i) (xs @ [c])) ((xs @ [c]) ! i)"
  proof (cases "Suc i < length xs")
    case True
    then show ?thesis using assms(1) by (simp add: planner_chain_def nth_append)
  next
    case False
    then have len: "Suc i = length xs" using i by simp
    then have ne: "xs \<noteq> []" by auto
    from len have "i = length xs - 1" by simp
    then have "xs ! i = last xs" using last_conv_nth [OF ne] by simp
    then show ?thesis using assms(2) [OF ne] len by (simp add: nth_append)
  qed
qed

lemma planner_limit_next:
  assumes "planner_inv tz s" "planner_follow spacing s" "scheduledTimes s \<noteq> []"
    "0 \<le> spacing" "1 \<le> cap"
  shows "currentTime (planner_limit tz cap s) =
         planned_next tz spacing cap (scheduledTimes s) (last (scheduledTimes s))"
proof -
  let ?xs = "scheduledTimes s"
  let ?a = "last ?xs"
  have cur: "currentTime s = ?a + spacing * 1000"
    using assms(2,3) by (simp add: planner_follow_def)
  have hs: "currentHourStart s = setMinutes0 tz (currentTime s)"
    using assms(1) by (simp add: planner_inv_def)
  have n: "emailsInCurrentHour s = length (filter (\<lambda>t. currentHourStart s \<le> t) ?xs)"
    using assms(1) by (simp add: planner_inv_def)
  have "sorted ?xs" using assms(1) by (simp add: planner_inv_def)
  then have bnd: "\<forall>t \<in> set ?xs. t \<le> ?a"
    by (simp add: sorted_le_last)
  show ?thesis
  proof (cases "setMinutes0 tz (?a + spacing * 1000) = setMinutes0 tz ?a")
    case True
    then have "emailsInCurrentHour s = bucket_size tz ?xs ?a"
      using n hs cur bucket_filter [OF bnd, of tz] by (simp add: bucket_size_def)
    then show ?thesis
      using True hs cur
      by (simp add: planner_limit_def planned_next_def Let_def setHoursPlus1_def)
  next
    case False
    have "setMinutes0 tz ?a \<le> setMinutes0 tz (?a + spacing * 1000)"
      using assms(4) by (intro setMinutes0_mono) simp
    then have "setMinutes0 tz ?a < setMinutes0 tz (?a + spacing * 1000)" using False by simp
    then have "setMinutes0 tz ?a + hourMs \<le> currentHourStart s"
      unfolding hs cur by (rule setMinutes0_step)
    then have "\<forall>t \<in> set ?xs. t < currentHourStart s"
      using bnd setMinutes0_gt [of ?a tz] by fastforce
    then have "filter (\<lambda>t. currentHourStart s \<le> t) ?xs = []"
      unfolding filter_empty_conv by fastforce
    then have "emailsInCurrentHour s = 0" using n by simp
    then show ?thesis
      using False assms(5) cur by (simp add: planner_limit_def planned_next_def)
  qed
qed

lemma planner_follow_body:
  "planner_follow spacing (planner_body tz spacing cap s)"
  by (simp add: planner_follow_def planner_body_def planner_emit_def Let_def)

lemma planner_chain_body:
  assumes "planner_inv tz s" "planner_follow spacing s"
    "planner_chain tz spacing cap (scheduledTimes s)" "0 \<le> spacing" "1 \<le> cap"
  shows "planner_chain tz spacing cap (scheduledTimes (planner_body tz spacing cap s))"
  unfolding planner_body_def scheduledTimes_emit scheduledTimes_limit
  using assms(3) planner_limit_next [OF assms(1,2) _ assms(4,5)]
  by (rule planner_chain_snoc)

lemma planner_chain_loop:
  "planner_inv tz s \<Longrightarrow> planner_follow spacing s \<Longrightarrow>
   planner_chain tz spacing cap (scheduledTimes s) \<Longrightarrow> 0 \<le> spacing \<Longrightarrow> 1 \<le> cap \<Longrightarrow>
   planner_chain tz spacing cap (scheduledTimes (planner_loop tz count spacing cap s))"
proof (induction count arbitrary: s)
  case 0
  then show ?case by simp
next
  case (Suc k)
  show ?case
    unfolding planner_loop.simps
    using Suc.prems planner_inv_body planner_follow_body planner_chain_body
    by (intro Suc.IH) auto
qed

lemma planner_chain_result:
  assumes "0 \<le> spacing" "1 \<le> cap"
  shows "planner_chain tz spacing cap (calculateScheduledTimes tz count start spacing cap sid)"
  unfolding calculateScheduledTimes_def
  using planner_inv_init assms
  by (intro planner_chain_loop) (simp_all add: planner_follow_def planner_chain_def planner_init_def)

text \<open>In a zone whose offset is a whole number of hours, clock hours are the UTC hours.\<close>

lemma setMinutes0_whole_hours:
  assumes "60 dvd tz"
  shows "setMinutes0 tz t = setMinutes0 0 t"
proof -
  from assms obtain k where "tz = 60 * k" by (auto simp: dvd_def)
  then have "t + tz * 60000 = t + k * hourMs"
    by (simp add: hourMs_def)
  then have "(t + tz * 60000) mod hourMs = t mod hourMs"
    by (simp only: mod_mult_self1)
  then show ?thesis by (simp add: setMinutes0_def)
qed

lemma planner_whole_hours:
  assumes "60 dvd tz"
  shows "calculateScheduledTimes tz count start spacing cap sid =
         calculateScheduledTimes 0 count start spacing cap sid"
proof -
  have step: "planner_body tz spacing cap s = planner_body 0 spacing cap s" for s
    by (simp add: planner_body_def planner_emit_def planner_limit_def
        setMinutes0_whole_hours [OF assms])
  have "planner_loop tz count spacing cap s = planner_loop 0 count spacing cap s" for s
    by (induction count arbitrary: s) (simp_all add: step)
  then show ?thesis
    by (simp add: calculateScheduledTimes_def planner_init_def setMinutes0_whole_hours [OF assms])
qed

lemma planner_example_utc:
  "calculateScheduledTimes 0 4 1735729140000 30 2 sid =
     [1735729140000, 1735729170000, 1735729200000, 1735729230000]"
proof -
  have "calculateScheduledTimes 0 4 1735729140000 30 2 None =
     [1735729140000, 1735729170000, 1735729200000, 1735729230000]"
    by code_simp
  then show ?thesis by (simp add: calculateScheduledTimes_def)
qed

text \<open>
  Claim C5, as the code has it. For two consecutive planned instants \<open>a\<close> and \<open>b\<close>: if they
  lie in the same clock hour, \<open>b = a + spacing\<close> seconds; if the clock hour of \<open>a\<close> already
  holds \<open>cap\<close> planned instants and \<open>a + spacing\<close> would still lie in it, \<open>b\<close> is the start
  of the next clock hour; in every other case \<open>b = a + spacing\<close>. Clock hours are those of
  the process's time zone, so the worked example (count 4, start 2025-01-01T10:59:00Z,
  spacing 30 s, cap 2, output 10:59:00, 10:59:30, 11:00:00, 11:00:30) is the output in a
  zone whose offset from UTC is a whole number of hours.
\<close>

theorem planner_spacing:
  fixes tz :: int and start :: instant and sid :: "string option"
  assumes "0 \<le> spacing" "1 \<le> cap" "Suc i < count"
  defines "out \<equiv> calculateScheduledTimes tz count start spacing cap sid"
  shows "(setMinutes0 tz (out ! Suc i) = setMinutes0 tz (out ! i) \<longrightarrow>
            out ! Suc i = out ! i + spacing * 1000) \<and>
         (cap \<le> int (bucket_size tz (take (Suc i) out) (out ! i)) \<and>
          setMinutes0 tz (out ! i + spacing * 1000) = setMinutes0 tz (out ! i) \<longrightarrow>
            out ! Suc i = setMinutes0 tz (out ! i) + hourMs) \<and>
         (\<not> (cap \<le> int (bucket_size tz (take (Suc i) out) (out ! i)) \<and>
          setMinutes0 tz (out ! i + spacing * 1000) = setMinutes0 tz (out ! i)) \<longrightarrow>
            out ! Suc i = out ! i + spacing * 1000) \<and>
         (60 dvd tz \<longrightarrow>
            calculateScheduledTimes tz 4 1735729140000 30 2 sid =
              [1735729140000, 1735729170000, 1735729200000, 1735729230000])"
proof -
  have len: "length out = count"
    unfolding out_def by (simp add: calculateScheduledTimes_def length_planner_loop planner_init_def)
  have "planner_chain tz spacing cap out"
    unfolding out_def using assms(1,2) by (rule planner_chain_result)
  then have nxt: "out ! Suc i = planned_next tz spacing cap (take (Suc i) out) (out ! i)"
    using assms(3) len by (simp add: planner_chain_def)
  have jump: "setMinutes0 tz (setMinutes0 tz (out ! i) + hourMs) \<noteq> setMinutes0 tz (out ! i)"
    using setMinutes0_next [of tz "out ! i"] by (simp add: hourMs_def)
  have ex: "60 dvd tz \<longrightarrow>
            calculateScheduledTimes tz 4 1735729140000 30 2 sid =
              [1735729140000, 1735729170000, 1735729200000, 1735729230000]"
    using planner_whole_hours [of tz 4 1735729140000 30 2 sid] planner_example_utc by simp
  show ?thesis using nxt jump ex by (auto simp: planned_next_def)
qed

lemma planner_example_jump:
  "calculateScheduledTimes 0 3 1735725600000 30 2 None =
     [1735725600000, 1735725630000, 1735729200000]"
  by code_simp

text \<open>
  Count 3, start 2025-01-01T10:00:00Z, spacing 30 s, cap 2, in UTC: 10:00:00 and 10:00:30
  lie in the same clock hour and differ by the spacing; the hour then holds 2 instants
  and 10:01:00 would be the third, so the next instant is 11:00:00.
\<close>

theorem planner_spacing_witness:
  "(0::int) \<le> 30 \<and> (1::int) \<le> 2 \<and> Suc 0 < (3::nat) \<and> Suc 1 < (3::nat) \<and>
   setMinutes0 0 (calculateScheduledTimes 0 3 1735725600000 30 2 None ! Suc 0) =
     setMinutes0 0 (calculateScheduledTimes 0 3 1735725600000 30 2 None ! 0) \<and>
   calculateScheduledTimes 0 3 1735725600000 30 2 None ! Suc 0 =
     calculateScheduledTimes 0 3 1735725600000 30 2 None ! 0 + 30 * 1000 \<and>
   2 \<le> int (bucket_size 0 (take (Suc 1) (calculateScheduledTimes 0 3 1735725600000 30 2 None))
               (calculateScheduledTimes 0 3 1735725600000 30 2 None ! 1)) \<and>
   setMinutes0 0 (calculateScheduledTimes 0 3 1735725600000 30 2 None ! 1 + 30 * 1000) =
     setMinutes0 0 (calculateScheduledTimes 0 3 1735725600000 30 2 None ! 1) \<and>
   calculateScheduledTimes 0 3 1735725600000 30 2 None ! Suc 1 =
     setMinutes0 0 (calculateScheduledTimes 0 3 1735725600000 30 2 None ! 1) + hourMs \<and>
   calculateScheduledTimes 0 3 1735725600000 30 2 None ! Suc 1 = 1735729200000"
  using planner_spacing [of 30 2 0 3 0 1735725600000 None]
    planner_spacing [of 30 2 1 3 0 1735725600000 None]
  unfolding planner_example_jump
  by (simp add: bucket_size_def setMinutes0_def hourMs_def)

text \<open>
  In Asia/Kolkata (UTC+05:30) the clock hour of 10:59:30Z ends at 11:30:00Z, so the third
  instant of the worked example is 11:30:00Z and not 11:00:00Z.
\<close>

theorem planner_example_half_hour_zone:
  "calculateScheduledTimes 330 4 1735729140000 30 2 None \<noteq>
     [1735729140000, 1735729170000, 1735729200000, 1735729230000]"
  by code_simp

section \<open>Planner: independence from the sender\<close>

text \<open>
  Claim C10. Two calls of the planner whose arguments differ only in the sender id return
  the same list of instants. The function takes no store, counter or rate-limiter state:
  its result is determined by count, start time, delay and hourly limit (and the time
  zone of the process).
\<close>

theorem planner_ignores_sender:
  "calculateScheduledTimes tz count startTime delayBetweenEmails hourlyLimit sid =
   calculateScheduledTimes tz count startTime delayBetweenEmails hourlyLimit sid'"
  by (simp add: calculateScheduledTimes_def)

section \<open>Rate limiter: the quota check\<close>

lemma clamp_min: "min (max 0 a) (max 0 b) = max (0::int) (min a b)"
  by (simp add: min_def max_def)

lemma sent_in_hour_fun:
  "sent_in_hour rt now =
     (\<lambda>e. status e = SENT \<and>
        (case sentAt e of
           None \<Rightarrow> False
         | Some t \<Rightarrow> getCurrentHourStart rt now \<le> t \<and> t < getNextHourStart rt now))"
  by (simp add: fun_eq_iff sent_in_hour_def)

text \<open>
  What the quota check returns, for every call. \<open>remaining\<close> is
  \<open>min (globalLimit - globalCount) (senderLimit - senderCount)\<close> clamped at 0 when a sender
  is given and \<open>globalLimit - globalCount\<close> clamped at 0 otherwise; \<open>allowed\<close> holds iff
  \<open>remaining > 0\<close>; the next slot is \<open>now\<close> when \<open>remaining > 0\<close> and the reset time
  otherwise. The reset time is the start of the next clock hour of the process's time
  zone. The counts are the hour's counters, or the sent messages of the hour when the
  counter backend fails.
\<close>

lemma quota_check_fields:
  fixes rt :: runtime and sid :: "string option" and now :: instant and w :: world
  defines "r \<equiv> checkRateLimit rt sid now w"
  shows "(truthy sid \<longrightarrow>
            remaining r = max 0 (min (maxEmailsPerHour rt - globalCount rt now w)
                                     (maxEmailsPerHourPerSender rt - senderCount rt sid now w))) \<and>
         (\<not> truthy sid \<and> 0 \<le> maxEmailsPerHour rt \<longrightarrow>
            remaining r = max 0 (maxEmailsPerHour rt - globalCount rt now w)) \<and>
         (allowed r \<longleftrightarrow> remaining r > 0) \<and>
         resetTime r = setMinutes0 (zoneOffset rt) now + hourMs \<and>
         (60 dvd zoneOffset rt \<longrightarrow> resetTime r = setMinutes0 0 now + hourMs) \<and>
         nextAvailableSlot r = Some (if remaining r > 0 then now else resetTime r)"
proof -
  have reset: "resetTime r = setMinutes0 (zoneOffset rt) now + hourMs"
    unfolding r_def
    by (simp add: checkRateLimit_def checkRateLimitFromDB_def Let_def getNextHourStart_def
        getCurrentHourStart_def setHoursPlus1_def)
  have utc: "60 dvd zoneOffset rt \<longrightarrow> resetTime r = setMinutes0 0 now + hourMs"
    using reset setMinutes0_whole_hours [of "zoneOffset rt" now] by simp
  have slot: "(allowed r \<longleftrightarrow> remaining r > 0) \<and>
         nextAvailableSlot r =
           Some (if remaining r > 0 then now else setMinutes0 (zoneOffset rt) now + hourMs)"
    unfolding r_def checkRateLimit_def checkRateLimitFromDB_def Let_def
    by (cases "redisFault w"; cases "truthy sid")
       (simp_all add: getNextHourStart_def getCurrentHourStart_def setHoursPlus1_def)
  have counts: "(truthy sid \<longrightarrow>
            remaining r = max 0 (min (maxEmailsPerHour rt - globalCount rt now w)
                                     (maxEmailsPerHourPerSender rt - senderCount rt sid now w))) \<and>
         (\<not> truthy sid \<and> 0 \<le> maxEmailsPerHour rt \<longrightarrow>
            remaining r = max 0 (maxEmailsPerHour rt - globalCount rt now w))"
    unfolding r_def
    by (simp add: checkRateLimit_def checkRateLimitFromDB_def Let_def globalCount_def
        senderCount_def sent_in_hour_fun clamp_min)
  show ?thesis using reset utc slot counts by simp
qed

text \<open>
  Claim C8. The reset time is claimed to be the start of the next UTC hour, the hour by
  which the counters are keyed. In Asia/Kolkata (UTC+05:30), with the global quota of the
  hour 10:00 to 11:00 UTC used up, the check at 10:10:00Z denies and gives 10:30:00Z, the
  start of the next local clock hour, as reset time and as next slot, where the next UTC
  hour starts at 11:00:00Z; the same check at 10:30:00Z still denies.
\<close>

theorem reset_time_is_local_hour:
  "allowed (checkRateLimit (example_runtime\<lparr> zoneOffset := 330 \<rparr>) (Some ''s1'')
      1735726200000 (example_world\<lparr> redisCounters := quota_used \<rparr>)) = False \<and>
   remaining (checkRateLimit (example_runtime\<lparr> zoneOffset := 330 \<rparr>) (Some ''s1'')
      1735726200000 (example_world\<lparr> redisCounters := quota_used \<rparr>)) = 0 \<and>
   resetTime (checkRateLimit (example_runtime\<lparr> zoneOffset := 330 \<rparr>) (Some ''s1'')
      1735726200000 (example_world\<lparr> redisCounters := quota_used \<rparr>)) = 1735727400000 \<and>
   nextAvailableSlot (checkRateLimit (example_runtime\<lparr> zoneOffset := 330 \<rparr>) (Some ''s1'')
      1735726200000 (example_world\<lparr> redisCounters := quota_used \<rparr>)) = Some 1735727400000 \<and>
   setMinutes0 0 1735726200000 + hourMs = 1735729200000 \<and>
   allowed (checkRateLimit (example_runtime\<lparr> zoneOffset := 330 \<rparr>) (Some ''s1'')
      1735727400000 (example_world\<lparr> redisCounters := quota_used \<rparr>)) = False"
  by code_simp

section \<open>Worker: a job whose message is gone\<close>

text \<open>
  Claim C7. When a worker receives a job whose message no longer exists, the claim has it
  acknowledge the job as completed. Here the message \<open>m1\<close> is cancelled and the job then
  runs: the first store update rejects, the \<open>catch\<close> block's own update rejects again, and
  the processor rejects with the store's error, so the attempt is reported as failed. The
  transport is not called and nothing is written.
\<close>

theorem missing_message_job_fails:
  "processEmailJob example_runtime example_job transport_ok 1735726200000
     (snd (cancelEmail ''u1'' ''m1'' example_world)) =
   (Inl notFound, snd (cancelEmail ''u1'' ''m1'' example_world))"
  by code_simp

section \<open>Worker: a transient transport failure\<close>

lemma transient_failure_run:
  "processEmailJob example_runtime example_job transport_failure 1735726200000 example_world =
   (Inr \<lparr> success = False, result_messageId = None, result_previewUrl = None,
           error = Some ''read ECONNRESET'' \<rparr>,
    example_world\<lparr> emails := [(''m1'', example_message\<lparr> status := SCHEDULED,
         errorMessage := Some ''read ECONNRESET'', retryCount := 1,
         jobId := Some ''email-m1-attempt-1'' \<rparr>)],
      outbox := [envelope (job_data example_job) example_world],
      transitions := [(''m1'', SCHEDULED, PROCESSING), (''m1'', PROCESSING, SCHEDULED)] \<rparr>)"
  by code_simp

text \<open>
  Claim C1. After a transport failure with \<open>retryCount + 1 < maxRetries\<close> the claim has the
  worker report the attempt as failed, so that the queue delivers the job again. Here the
  message is set back to SCHEDULED with the error and \<open>retryCount = 1\<close>, but the processor
  returns a result instead of rejecting: the queue completes the job. With a transport
  that fails twice and then succeeds, and 3 attempts, the message ends in SCHEDULED with
  \<open>retryCount = 1\<close>, not in SENT with \<open>retryCount = 2\<close>.
\<close>

theorem transient_failure_not_redelivered:
  "fst (processEmailJob example_runtime example_job transport_failure 1735726200000
          example_world) =
     Inr \<lparr> success = False, result_messageId = None, result_previewUrl = None,
           error = Some ''read ECONNRESET'' \<rparr> \<and>
   map_option status (email_findUnique ''m1''
     (deliver example_runtime example_job 3
        [(transport_failure, 1735726200000), (transport_failure, 1735726205000),
         (transport_ok, 1735726215000)] example_world)) = Some SCHEDULED \<and>
   map_option retryCount (email_findUnique ''m1''
     (deliver example_runtime example_job 3
        [(transport_failure, 1735726200000), (transport_failure, 1735726205000),
         (transport_ok, 1735726215000)] example_world)) = Some 1"
  by (simp add: eval_nat_numeral transient_failure_run email_findUnique_def)

section \<open>Coordinator: enqueue failure\<close>

lemma emails_mark_batch_failed:
  "emails (mark_batch_failed bid err w) =
     map (\<lambda>(k, e). if batchId e = Some bid
                     then (k, e\<lparr> status := FAILED, errorMessage := Some (queue_error_text err) \<rparr>)
                     else (k, e)) (emails w)"
  by (simp add: mark_batch_failed_def email_updateMany_def)

lemma mark_batch_failed_all:
  "list_all (\<lambda>(k, e). batchId e = Some bid \<longrightarrow>
               status e = FAILED \<and> errorMessage e = Some (queue_error_text err))
     (emails (mark_batch_failed bid err w))"
  by (auto simp: emails_mark_batch_failed list_all_iff split: if_splits)

lemma mark_batch_failed_keeps:
  assumes "(k, e) \<in> set (emails w)" "batchId e = Some bid"
  shows "(k, e\<lparr> status := FAILED, errorMessage := Some (queue_error_text err) \<rparr>)
           \<in> set (emails (mark_batch_failed bid err w))"
  using assms by (force simp: emails_mark_batch_failed)

lemma length_calculateScheduledTimes:
  "length (calculateScheduledTimes tz n start d cap sid) = n"
  by (simp add: calculateScheduledTimes_def length_planner_loop planner_init_def)

lemma error_response_failure:
  "statusCode (error_response err) = 500 \<and> \<not> resp_success (error_response err) \<and>
   resp_error (error_response err) \<noteq> None"
  by (simp add: error_response_def failure_response_def)

text \<open>
  Claim C6. When the sender resolves and bulk enqueue fails after the batch and its
  messages are stored, \<open>scheduleEmails\<close> answers with status 500 and an error; every stored
  message of the batch is FAILED and its error message is the message of the queue error
  (the fixed text \<open>Failed to add to queue (System Error)\<close> when what was thrown is not an
  error object); none is SCHEDULED; and the message of each recipient is among them.
\<close>

theorem enqueue_failure_marks_batch_failed:
  fixes rt :: runtime and bid :: string and newEmailId :: "nat \<Rightarrow> string" and now :: instant
  assumes "resolveSender uid (req_senderId req) w = Inr sid" "sid \<noteq> []"
    and "queueFault w = Some err"
  defines "res \<equiv> scheduleEmails rt uid req bid newEmailId now w"
  shows "statusCode (fst res) = 500 \<and> \<not> resp_success (fst res) \<and> resp_error (fst res) \<noteq> None \<and>
         list_all (\<lambda>(k, e). batchId e = Some bid \<longrightarrow>
                     status e = FAILED \<and>
                     errorMessage e =
                       Some (case err of
                               Error m \<Rightarrow> m
                             | NonError \<Rightarrow> ''Failed to add to queue (System Error)''))
           (emails (snd res)) \<and>
         list_all (\<lambda>(k, e). batchId e = Some bid \<longrightarrow> status e \<noteq> SCHEDULED) (emails (snd res)) \<and>
         (\<forall>i < length (req_recipients req).
            \<exists>e. (newEmailId i, e) \<in> set (emails (snd res)) \<and> batchId e = Some bid \<and>
                recipientEmail e = req_recipients req ! i \<and> status e = FAILED \<and>
                errorMessage e =
                  Some (case err of
                          Error m \<Rightarrow> m
                        | NonError \<Rightarrow> ''Failed to add to queue (System Error)''))"
proof -
  let ?n = "length (req_recipients req)"
  let ?times = "calculateScheduledTimes (zoneOffset rt) ?n (req_startTime req)
                  (req_delayBetweenEmails req) (req_hourlyLimit req) (Some sid)"
  let ?rows = "map (\<lambda>(index, recipient, at).
                     (newEmailId index, new_email uid sid req bid index recipient at))
                (zip [0..<?n] (zip (req_recipients req) ?times))"
  let ?batch = "\<lparr> batch_userId = uid, totalEmails = int ?n, scheduledEmails = int ?n,
                   sentEmails = 0, failedEmails = 0, batch_startTime = req_startTime req,
                   batch_delayBetweenEmails = req_delayBetweenEmails req,
                   batch_hourlyLimit = req_hourlyLimit req \<rparr>"
  let ?w2 = "w\<lparr> emailBatches := emailBatches w @ [(bid, ?batch)],
               emails := emails w @ ?rows \<rparr>"
  have res: "res = (error_response err, mark_batch_failed bid err ?w2)"
    unfolding res_def scheduleEmails_def
    using assms(1,2,3) by (simp add: Let_def addEmailJobs_def)
  have qtext: "queue_error_text err =
      (case err of Error m \<Rightarrow> m | NonError \<Rightarrow> ''Failed to add to queue (System Error)'')"
    by (simp add: queue_error_text_def)
  have a0: "list_all (\<lambda>(k, e). batchId e = Some bid \<longrightarrow>
                     status e = FAILED \<and> errorMessage e = Some (queue_error_text err))
           (emails (snd res))"
    unfolding res by (simp add: mark_batch_failed_all)
  have a: "list_all (\<lambda>(k, e). batchId e = Some bid \<longrightarrow>
                     status e = FAILED \<and>
                     errorMessage e =
                       Some (case err of
                               Error m \<Rightarrow> m
                             | NonError \<Rightarrow> ''Failed to add to queue (System Error)''))
           (emails (snd res))"
    using a0 unfolding qtext .
  then have b: "list_all (\<lambda>(k, e). batchId e = Some bid \<longrightarrow> status e \<noteq> SCHEDULED)
      (emails (snd res))"
    by (auto simp: list_all_iff)
  have c: "\<exists>e. (newEmailId i, e) \<in> set (emails (snd res)) \<and> batchId e = Some bid \<and>
                recipientEmail e = req_recipients req ! i \<and> status e = FAILED \<and>
                errorMessage e =
                  Some (case err of
                          Error m \<Rightarrow> m
                        | NonError \<Rightarrow> ''Failed to add to queue (System Error)'')"
    if i: "i < ?n" for i
  proof -
    let ?e = "new_email uid sid req bid i (req_recipients req ! i) (?times ! i)"
    have len: "length ?times = ?n" by (rule length_calculateScheduledTimes)
    have eq: "?rows ! i = (newEmailId i, ?e)"
      using i len by simp
    have lt: "i < length ?rows" using i len by simp
    have "?rows ! i \<in> set ?rows" using lt by (rule nth_mem)
    then have "(newEmailId i, ?e) \<in> set ?rows" by (simp only: eq)
    then have "(newEmailId i, ?e) \<in> set (emails ?w2)" by simp
    moreover have "batchId ?e = Some bid" by (simp add: new_email_def)
    ultimately have m: "(newEmailId i, ?e\<lparr> status := FAILED,
          errorMessage := Some (queue_error_text err) \<rparr>) \<in> set (emails (snd res))"
      unfolding res snd_conv by (rule mark_batch_failed_keeps)
    show ?thesis
      by (rule exI [of _ "?e\<lparr> status := FAILED,
          errorMessage := Some (queue_error_text err) \<rparr>"])
         (simp add: m, simp add: new_email_def qtext)
  qed
  have d: "statusCode (fst res) = 500 \<and> \<not> resp_success (fst res) \<and> resp_error (fst res) \<noteq> None"
    unfolding res fst_conv by (rule error_response_failure)
  show ?thesis using a b c d by blast
qed

theorem enqueue_failure_marks_batch_failed_witness:
  "resolveSender ''u1'' (req_senderId example_request)
      (example_world\<lparr> queueFault := Some queue_down \<rparr>) = Inr ''s1'' \<and>
   ''s1'' \<noteq> [] \<and>
   queueFault (example_world\<lparr> queueFault := Some queue_down \<rparr>) = Some queue_down \<and>
   statusCode (fst (scheduleEmails example_runtime ''u1'' example_request ''b1''
      example_email_id 1735726200000 (example_world\<lparr> queueFault := Some queue_down \<rparr>))) = 500 \<and>
   list_all (\<lambda>(k, e). batchId e = Some ''b1'' \<longrightarrow>
               status e = FAILED \<and>
               errorMessage e = Some ''connect ECONNREFUSED 127.0.0.1:6379'')
     (emails (snd (scheduleEmails example_runtime ''u1'' example_request ''b1''
      example_email_id 1735726200000 (example_world\<lparr> queueFault := Some queue_down \<rparr>)))) \<and>
   length (req_recipients example_request) = 2 \<and>
   (\<exists>e. (example_email_id 0, e) \<in> set (emails (snd (scheduleEmails example_runtime ''u1''
           example_request ''b1'' example_email_id 1735726200000
           (example_world\<lparr> queueFault := Some queue_down \<rparr>)))) \<and>
        batchId e = Some ''b1'' \<and>
        recipientEmail e = req_recipients example_request ! 0 \<and> status e = FAILED \<and>
        errorMessage e = Some ''connect ECONNREFUSED 127.0.0.1:6379'') \<and>
   (\<exists>e. (example_email_id 1, e) \<in> set (emails (snd (scheduleEmails example_runtime ''u1''
           example_request ''b1'' example_email_id 1735726200000
           (example_world\<lparr> queueFault := Some queue_down \<rparr>)))) \<and>
        batchId e = Some ''b1'' \<and>
        recipientEmail e = req_recipients example_request ! 1 \<and> status e = FAILED \<and>
        errorMessage e = Some ''connect ECONNREFUSED 127.0.0.1:6379'')"
proof -
  have r: "resolveSender ''u1'' (req_senderId example_request)
      (example_world\<lparr> queueFault := Some queue_down \<rparr>) = Inr ''s1''"
    by (simp add: resolveSender_def example_request_def example_world_def example_sender_def
        truthy_def)
  have n: "''s1'' \<noteq> []" by simp
  have q: "queueFault (example_world\<lparr> queueFault := Some queue_down \<rparr>) = Some queue_down"
    by simp
  have t: "(case queue_down of Error m \<Rightarrow> m
            | NonError \<Rightarrow> ''Failed to add to queue (System Error)'') =
           ''connect ECONNREFUSED 127.0.0.1:6379''"
    by (simp add: queue_down_def)
  have l: "length (req_recipients example_request) = 2"
    by (simp add: example_request_def)
  have i0: "0 < length (req_recipients example_request)"
    and i1: "1 < length (req_recipients example_request)"
    by (simp_all add: l)
  note th = enqueue_failure_marks_batch_failed [OF r n q, of example_runtime "''b1''"
      example_email_id 1735726200000, unfolded t]
  note s = th [THEN conjunct1]
  note la = th [THEN conjunct2, THEN conjunct2, THEN conjunct2, THEN conjunct1]
  note all = th [THEN conjunct2, THEN conjunct2, THEN conjunct2, THEN conjunct2,
      THEN conjunct2, rule_format]
  note e0 = all [OF i0]
  note e1 = all [OF i1]
  show ?thesis
    by (intro conjI) (rule r, rule n, rule q, rule s, rule la, rule l, rule e0, rule e1)
qed

section \<open>Store primitives\<close>










section \<open>Worker: the message is gone\<close>




section \<open>Worker: FAILED carries an error\<close>

lemma list_all_alist_change:
  assumes "list_all (\<lambda>(k, e). q e) rows" "\<And>e. q e \<Longrightarrow> q (f e)"
  shows "list_all (\<lambda>(k, e). q e) (alist_change k f rows)"
  using assms by (induction rows) (auto simp: alist_change_def split: if_splits)

lemma errors_kept_update:
  assumes "errors_kept w" "email_update k f w = Inr w'" "\<And>e. has_error (f e)"
  shows "errors_kept w'"
  using assms
  by (auto simp: errors_kept_def email_update_def list_all_alist_change split: option.splits)

lemma errors_kept_frame:
  "emails w' = emails w \<Longrightarrow> errors_kept w \<Longrightarrow> errors_kept w'"
  by (simp add: errors_kept_def)




section \<open>Worker: FAILED means the retries are used up\<close>




section \<open>Operations keep the error of a FAILED message\<close>







section \<open>The invariant of FAILED messages\<close>





section \<open>Status changes\<close>

lemma worker_pair_take:
  "s \<noteq> SENT \<Longrightarrow> s \<noteq> FAILED \<Longrightarrow> s \<noteq> PROCESSING \<Longrightarrow> worker_pair s PROCESSING"
  by (cases s) simp_all

lemma take_change:
  assumes "status e \<noteq> SENT" "status e \<noteq> FAILED"
  shows "list_all (worker_change eid) (status_change eid e (e\<lparr> status := PROCESSING, jobId := x \<rparr>))"
  using assms by (simp add: status_change_def worker_change_def worker_pair_take)












lemma map_of_unique_row:
  "distinct (map fst rows) \<Longrightarrow> (k, e) \<in> set rows \<Longrightarrow> map_of rows k = Some e"
  by simp








end
